theory Spec2Isabelle
  imports Main
begin

section \<open>The icon generator of \<open>build/generate_icons.py\<close>\<close>

text \<open>
  The script reads \<open>logo.svg\<close>, rasterizes it with \<open>cairosvg\<close> at fixed sizes and writes
  the rasters to files. The model passes the working directory and the console explicitly
  and returns every exception of the script as a value.
\<close>

subsection \<open>Data\<close>

type_synonym bytes = string

text \<open>An image handle of the image library: what \<open>Image.open\<close> returns.\<close>

record image =
  width :: nat
  height :: nat
  pixels :: bytes

text \<open>
  The working directory (file name to content) and the lines given to \<open>print\<close>, oldest
  first.
\<close>

record world =
  files :: "string \<rightharpoonup> bytes"
  stdout :: "string list"

text \<open>
  How an import statement ends: the name is bound; or the statement raises
  \<open>ImportError\<close>, as when the package is not installed; or it raises another exception,
  with its message, as an installed package does whose own initialisation fails (a
  shared library it loads is missing).
\<close>

datatype import_outcome = Imported | ImportError | Raised string

text \<open>
  What the script is run against: how the two imports of lines 13 and 14 end, and the
  external collaborators. \<open>svg2png\<close> is the rasterizer as a function of the SVG bytes
  and the requested width and height; \<open>Inl\<close> is the message of the exception it raises.
  \<open>writable\<close> says whether \<open>open(name, 'wb')\<close> succeeds.
\<close>

record env =
  import_cairosvg :: import_outcome
  import_PIL :: import_outcome
  svg2png :: "bytes \<Rightarrow> nat \<Rightarrow> nat \<Rightarrow> string + bytes"
  image_open :: "bytes \<Rightarrow> string + image"
  ico_save :: "image \<Rightarrow> (nat \<times> nat) list \<Rightarrow> string + bytes"
  writable :: "string \<Rightarrow> bool"

text \<open>
  The exceptions that leave \<open>generate_icons\<close>: a name that resolves nowhere, an index
  out of range, and an exception raised inside a collaborator (a package being
  imported, rasterizer, image library, file system), with its message.
\<close>

datatype exn = NameError string | IndexError | External string

subsection \<open>Names in scope\<close>

text \<open>
  Lines 7 to 11 bind the module's names; the assignments, imports and loop variables
  inside \<open>generate_icons\<close> bind its locals; \<open>builtin_names\<close> are the builtins the
  script calls. A name that is read and is in none of the three raises \<open>NameError\<close>.
\<close>

definition module_names :: "string list" where
  "module_names = [''os'', ''sys'', ''Path'', ''generate_icons'']"

definition local_names :: "string list" where
  "local_names = [''cairosvg'', ''Image'', ''sizes'', ''svg_file'', ''filename'', ''size'',
     ''png_data'', ''f'', ''ico_sizes'', ''ico_images'', ''img'', ''icns_sizes'',
     ''icns_images'']"

definition builtin_names :: "string list" where
  "builtin_names = [''print'', ''open'', ''str'', ''ImportError'']"

definition resolve :: "string \<Rightarrow> exn + unit" where
  "resolve name =
     (if name \<in> set local_names \<or> name \<in> set module_names \<or> name \<in> set builtin_names
      then Inr () else Inl (NameError name))"

text \<open>The names read by the body of the ICO loop (lines 64 to 71).\<close>

definition ico_body_names :: "string list" where
  "ico_body_names = [''ico_sizes'', ''cairosvg'', ''str'', ''svg_file'', ''size'', ''Image'',
     ''io'', ''png_data'', ''ico_images'', ''img'']"

text \<open>The names read by the body of the ICNS staging loop (lines 81 to 88).\<close>

definition icns_body_names :: "string list" where
  "icns_body_names = [''icns_sizes'', ''cairosvg'', ''str'', ''svg_file'', ''size'', ''open'',
     ''f'', ''png_data'']"

subsection \<open>Formatting\<close>

definition digit_char :: "nat \<Rightarrow> char" where
  "digit_char d = ''0123456789'' ! d"

text \<open>The decimal text of a number, as an f-string renders \<open>{size}\<close>.\<close>

function str_nat :: "nat \<Rightarrow> string" where
  "str_nat n = (if n < 10 then [digit_char n] else str_nat (n div 10) @ [digit_char (n mod 10)])"
  by pat_completeness auto
termination
  by (relation "measure id") auto

declare str_nat.simps [simp del]

subsection \<open>Console and files\<close>

definition print :: "string \<Rightarrow> world \<Rightarrow> world" where
  "print line s = s\<lparr>stdout := stdout s @ [line]\<rparr>"

text \<open>\<open>with open(name, 'wb') as f: f.write(data)\<close>: the file is replaced by \<open>data\<close>.\<close>

definition write_file :: "env \<Rightarrow> string \<Rightarrow> bytes \<Rightarrow> world \<Rightarrow> (exn + unit) \<times> world" where
  "write_file e name data s =
     (if writable e name then (Inr (), s\<lparr>files := (files s)(name \<mapsto> data)\<rparr>)
      else (Inl (External ''OSError''), s))"

definition svg_file :: string where
  "svg_file = ''logo.svg''"

text \<open>\<open>cairosvg.svg2png(url=..., output_width=w, output_height=h)\<close> reads the file at \<open>url\<close>.\<close>

definition cairosvg_svg2png :: "env \<Rightarrow> world \<Rightarrow> string \<Rightarrow> nat \<Rightarrow> nat \<Rightarrow> exn + bytes" where
  "cairosvg_svg2png e s url w h =
     (case files s url of
        None \<Rightarrow> Inl (External ''FileNotFoundError'')
      | Some svg \<Rightarrow> (case svg2png e svg w h of Inl m \<Rightarrow> Inl (External m) | Inr png \<Rightarrow> Inr png))"

subsection \<open>The size tables\<close>

definition sizes :: "(string \<times> nat) list" where
  "sizes =
    [(''icon_16x16.png'', 16),
     (''icon_32x32.png'', 32),
     (''icon_128x128.png'', 128),
     (''icon_256x256.png'', 256),
     (''icon_512x512.png'', 512),
     (''icon_1024x1024.png'', 1024),
     (''favicon-16x16.png'', 16),
     (''favicon-32x32.png'', 32),
     (''favicon-96x96.png'', 96),
     (''favicon-192x192.png'', 192),
     (''apple-touch-icon.png'', 180)]"

definition ico_sizes :: "nat list" where
  "ico_sizes = [16, 32, 48, 64]"

definition icns_sizes :: "nat list" where
  "icns_sizes = [16, 32, 128, 256, 512, 1024]"

subsection \<open>The PNG sweep (lines 45 to 57)\<close>

definition progress_line :: "string \<times> nat \<Rightarrow> string" where
  "progress_line p =
     ''  '' @ fst p @ '' ('' @ str_nat (snd p) @ ''x'' @ str_nat (snd p) @ '')''"

fun png_sweep :: "env \<Rightarrow> (string \<times> nat) list \<Rightarrow> world \<Rightarrow> (exn + unit) \<times> world" where
  "png_sweep e [] s = (Inr (), s)"
| "png_sweep e ((filename, n) # rest) s =
     (let s1 = print (progress_line (filename, n)) s in
      case cairosvg_svg2png e s1 svg_file n n of
        Inl x \<Rightarrow> (Inl x, s1)
      | Inr png_data \<Rightarrow>
          (case write_file e filename png_data s1 of
             (Inl x, s2) \<Rightarrow> (Inl x, s2)
           | (Inr u, s2) \<Rightarrow> png_sweep e rest s2))"

subsection \<open>The ICO assembly (lines 59 to 74)\<close>

text \<open>
  One round of the loop: rasterize, then evaluate \<open>Image.open(io.BytesIO(png_data))\<close>,
  which reads the name \<open>io\<close> before the image library is called.
\<close>

fun ico_loop :: "env \<Rightarrow> nat list \<Rightarrow> image list \<Rightarrow> world \<Rightarrow> (exn + image list) \<times> world" where
  "ico_loop e [] ico_images s = (Inr ico_images, s)"
| "ico_loop e (n # rest) ico_images s =
     (case cairosvg_svg2png e s svg_file n n of
        Inl x \<Rightarrow> (Inl x, s)
      | Inr png_data \<Rightarrow>
          (case resolve ''io'' of
             Inl x \<Rightarrow> (Inl x, s)
           | Inr u \<Rightarrow>
               (case image_open e png_data of
                  Inl m \<Rightarrow> (Inl (External m), s)
                | Inr img \<Rightarrow> ico_loop e rest (ico_images @ [img]) s)))"

text \<open>
  \<open>ico_images[0].save('favicon.ico', format='ICO', sizes=[(img.width, img.height) ...])\<close>.
\<close>

definition save_ico :: "env \<Rightarrow> image list \<Rightarrow> world \<Rightarrow> (exn + unit) \<times> world" where
  "save_ico e ico_images s =
     (case ico_images of
        [] \<Rightarrow> (Inl IndexError, s)
      | base # others \<Rightarrow>
          (case ico_save e base (map (\<lambda>img. (width img, height img)) ico_images) of
             Inl m \<Rightarrow> (Inl (External m), s)
           | Inr data \<Rightarrow> write_file e ''favicon.ico'' data s))"

subsection \<open>The ICNS staging (lines 76 to 88)\<close>

definition icns_filename :: "nat \<Rightarrow> string" where
  "icns_filename n = ''icon_'' @ str_nat n @ ''x'' @ str_nat n @ ''.png''"

fun icns_staging :: "env \<Rightarrow> nat list \<Rightarrow> world \<Rightarrow> (exn + unit) \<times> world" where
  "icns_staging e [] s = (Inr (), s)"
| "icns_staging e (n # rest) s =
     (case cairosvg_svg2png e s svg_file n n of
        Inl x \<Rightarrow> (Inl x, s)
      | Inr png_data \<Rightarrow>
          (case write_file e (icns_filename n) png_data s of
             (Inl x, s1) \<Rightarrow> (Inl x, s1)
           | (Inr u, s1) \<Rightarrow> icns_staging e rest s1))"

subsection \<open>The closing messages (lines 90 to 104)\<close>

definition instructions :: "string list" where
  "instructions =
    [''\<newline>Icons generated successfully!'',
     ''\<newline>To create ICNS file for macOS:'',
     ''1. Create an iconset folder: mkdir icon.iconset'',
     ''2. Copy PNG files with proper names:'',
     ''   cp icon_16x16.png icon.iconset/icon_16x16.png'',
     ''   cp icon_32x32.png icon.iconset/icon_16x16@2x.png'',
     ''   cp icon_32x32.png icon.iconset/icon_32x32.png'',
     ''   cp icon_128x128.png icon.iconset/icon_32x32@2x.png'',
     ''   cp icon_128x128.png icon.iconset/icon_128x128.png'',
     ''   cp icon_256x256.png icon.iconset/icon_128x128@2x.png'',
     ''   cp icon_256x256.png icon.iconset/icon_256x256.png'',
     ''   cp icon_512x512.png icon.iconset/icon_256x256@2x.png'',
     ''   cp icon_512x512.png icon.iconset/icon_512x512.png'',
     ''   cp icon_1024x1024.png icon.iconset/icon_512x512@2x.png'',
     ''3. Generate ICNS: iconutil -c icns icon.iconset'']"

definition icns_banner :: string where
  "icns_banner = ''  icon.icns (replacing existing)''"

subsection \<open>\<open>generate_icons\<close> and the entry point\<close>

text \<open>
  The body of the \<open>try\<close> statement (lines 13 and 14): \<open>import cairosvg\<close>, then
  \<open>from PIL import Image\<close>, which runs only when the first import has succeeded.
\<close>

definition do_imports :: "env \<Rightarrow> import_outcome" where
  "do_imports e =
     (case import_cairosvg e of
        Imported \<Rightarrow> import_PIL e
      | ImportError \<Rightarrow> ImportError
      | Raised m \<Rightarrow> Raised m)"

text \<open>
  \<open>Inr True\<close> and \<open>Inr False\<close> are the two return values; \<open>Inl x\<close> is the exception
  \<open>x\<close> leaving the function. The world that is returned holds what had been printed
  and written by then. The handler of line 15 catches \<open>ImportError\<close> and nothing else:
  any other exception of an import leaves the function.
\<close>

definition generate_icons :: "env \<Rightarrow> world \<Rightarrow> (exn + bool) \<times> world" where
  "generate_icons e s =
     (case do_imports e of
        ImportError \<Rightarrow>
          (Inr False,
           print ''pip install cairosvg pillow''
             (print ''Required packages not found. Please install them:'' s))
      | Raised m \<Rightarrow> (Inl (External m), s)
      | Imported \<Rightarrow>
          if files s svg_file = None then
            (Inr False, print (''SVG file '' @ svg_file @ '' not found!'') s)
          else
            (case png_sweep e sizes (print ''Generating icons...'' s) of
               (Inl x, s1) \<Rightarrow> (Inl x, s1)
             | (Inr u, s1) \<Rightarrow>
                 (case ico_loop e ico_sizes [] (print ''  favicon.ico'' s1) of
                    (Inl x, s2) \<Rightarrow> (Inl x, s2)
                  | (Inr ico_images, s2) \<Rightarrow>
                      (case save_ico e ico_images s2 of
                         (Inl x, s3) \<Rightarrow> (Inl x, s3)
                       | (Inr u, s3) \<Rightarrow>
                           (case icns_staging e icns_sizes (print icns_banner s3) of
                              (Inl x, s4) \<Rightarrow> (Inl x, s4)
                            | (Inr u, s4) \<Rightarrow>
                                (Inr True, s4\<lparr>stdout := stdout s4 @ instructions\<rparr>))))))"

text \<open>
  The \<open>__main__\<close> block as a function of how \<open>generate_icons\<close> ended: \<open>sys.exit(1)\<close>
  on a false result, the end of the script on a true one, and the exception itself
  when one was raised.
\<close>

definition exit_of :: "exn + bool \<Rightarrow> exn + nat" where
  "exit_of r = (case r of Inl x \<Rightarrow> Inl x | Inr ok \<Rightarrow> (if \<not> ok then Inr 1 else Inr 0))"

definition main :: "env \<Rightarrow> world \<Rightarrow> (exn + nat) \<times> world" where
  "main e s = (case generate_icons e s of (r, s1) \<Rightarrow> (exit_of r, s1))"

text \<open>
  The exit status of the process: the interpreter ends with status 1 on an exception
  that nothing caught.
\<close>

definition exit_status :: "exn + nat \<Rightarrow> nat" where
  "exit_status r = (case r of Inl x \<Rightarrow> 1 | Inr n \<Rightarrow> n)"


subsection \<open>What a sweep does, as functions of the SVG bytes\<close>

text \<open>
  The sweep reads nothing but \<open>logo.svg\<close>, which it never writes. Its outcome, the
  files it writes and the pairs it announces are therefore functions of the SVG bytes;
  the lemmas below tie them to \<open>png_sweep\<close>.
\<close>

fun sweep_result :: "env \<Rightarrow> bytes \<Rightarrow> (string \<times> nat) list \<Rightarrow> exn + unit" where
  "sweep_result e svg [] = Inr ()"
| "sweep_result e svg ((f, n) # ps) =
     (case svg2png e svg n n of
        Inl m \<Rightarrow> Inl (External m)
      | Inr png \<Rightarrow> if writable e f then sweep_result e svg ps else Inl (External ''OSError''))"

fun sweep_writes :: "env \<Rightarrow> bytes \<Rightarrow> (string \<times> nat) list \<Rightarrow> (string \<times> bytes) list" where
  "sweep_writes e svg [] = []"
| "sweep_writes e svg ((f, n) # ps) =
     (case svg2png e svg n n of
        Inl m \<Rightarrow> []
      | Inr png \<Rightarrow> if writable e f then (f, png) # sweep_writes e svg ps else [])"

fun sweep_seen :: "env \<Rightarrow> bytes \<Rightarrow> (string \<times> nat) list \<Rightarrow> (string \<times> nat) list" where
  "sweep_seen e svg [] = []"
| "sweep_seen e svg ((f, n) # ps) =
     (case svg2png e svg n n of
        Inl m \<Rightarrow> [(f, n)]
      | Inr png \<Rightarrow> if writable e f then (f, n) # sweep_seen e svg ps else [(f, n)])"

text \<open>The rasterizer succeeds at the pair's size and the pair's file can be opened.\<close>

definition pair_ok :: "env \<Rightarrow> bytes \<Rightarrow> string \<times> nat \<Rightarrow> bool" where
  "pair_ok e svg p =
     (case svg2png e svg (snd p) (snd p) of Inl m \<Rightarrow> False | Inr png \<Rightarrow> writable e (fst p))"

text \<open>The raster at \<open>n\<close> by \<open>n\<close>, when the rasterizer returns one.\<close>

definition raster :: "env \<Rightarrow> bytes \<Rightarrow> nat \<Rightarrow> bytes option" where
  "raster e svg n = (case svg2png e svg n n of Inl m \<Rightarrow> None | Inr png \<Rightarrow> Some png)"

subsection \<open>Example runs\<close>

text \<open>A rasterizer that always succeeds, both packages installed, every file writable.\<close>

definition demo_env :: env where
  "demo_env =
     \<lparr>import_cairosvg = Imported, import_PIL = Imported,
      svg2png = (\<lambda>svg w h. Inr (svg @ str_nat w)),
      image_open = (\<lambda>data. Inr \<lparr>width = 0, height = 0, pixels = data\<rparr>),
      ico_save = (\<lambda>img table. Inr (pixels img)),
      writable = (\<lambda>name. True)\<rparr>"

text \<open>\<open>cairosvg\<close> is not installed.\<close>

definition no_cairosvg_env :: env where
  "no_cairosvg_env = demo_env\<lparr>import_cairosvg := ImportError\<rparr>"

text \<open>\<open>cairosvg\<close> is installed and its import raises \<open>OSError\<close>.\<close>

definition broken_cairosvg_env :: env where
  "broken_cairosvg_env = demo_env\<lparr>import_cairosvg := Raised ''OSError''\<rparr>"

text \<open>A rasterizer that rejects the size 128.\<close>

definition failing_env :: env where
  "failing_env = demo_env\<lparr>svg2png := (\<lambda>svg w h. if w = 128 then Inl ''bad'' else Inr (svg @ str_nat w))\<rparr>"

definition demo_world :: world where
  "demo_world = \<lparr>files = [''logo.svg'' \<mapsto> ''<svg/>''], stdout = []\<rparr>"

text \<open>A working directory that earlier runs have left files in.\<close>

definition old_world :: world where
  "old_world =
     \<lparr>files = [''logo.svg'' \<mapsto> ''<svg/>'', ''favicon.ico'' \<mapsto> ''old'',
        ''icon_16x16.png'' \<mapsto> ''stale''],
      stdout = []\<rparr>"

definition empty_world :: world where
  "empty_world = \<lparr>files = Map.empty, stdout = []\<rparr>"

section \<open>Properties\<close>

subsection \<open>Auxiliary facts\<close>

lemma str_nat_values:
  "str_nat 16 = ''16''" "str_nat 32 = ''32''" "str_nat 48 = ''48''" "str_nat 64 = ''64''"
  "str_nat 96 = ''96''" "str_nat 128 = ''128''" "str_nat 180 = ''180''" "str_nat 192 = ''192''"
  "str_nat 256 = ''256''" "str_nat 512 = ''512''" "str_nat 1024 = ''1024''"
  by (simp_all add: str_nat.simps digit_char_def)

lemma resolve_io: "resolve ''io'' = Inl (NameError ''io'')"
  by (simp add: resolve_def local_names_def module_names_def builtin_names_def)

lemma sweep_writes_keys: "fst ` set (sweep_writes e svg ps) \<subseteq> fst ` set ps"
proof (induction ps)
  case Nil
  then show ?case by simp
next
  case (Cons p ps)
  obtain f n where p: "p = (f, n)" by (cases p)
  from Cons.IH show ?case
    unfolding p by (cases "svg2png e svg n n") auto
qed

lemma png_sweep_char:
  assumes "files s svg_file = Some svg" and "svg_file \<notin> fst ` set ps"
  shows "png_sweep e ps s =
    (sweep_result e svg ps,
     s\<lparr>files := files s ++ map_of (rev (sweep_writes e svg ps)),
       stdout := stdout s @ map progress_line (sweep_seen e svg ps)\<rparr>)"
  using assms
proof (induction ps arbitrary: s)
  case Nil
  then show ?case by simp
next
  case (Cons p ps)
  obtain f n where p: "p = (f, n)" by (cases p)
  show ?case
  proof (cases "svg2png e svg n n")
    case (Inl m)
    with Cons.prems p show ?thesis
      by (simp add: cairosvg_svg2png_def print_def)
  next
    case (Inr png)
    show ?thesis
    proof (cases "writable e f")
      case False
      with Cons.prems p Inr show ?thesis
        by (simp add: cairosvg_svg2png_def print_def write_file_def)
    next
      case True
      let ?s2 = "s\<lparr>stdout := stdout s @ [progress_line (f, n)], files := (files s)(f \<mapsto> png)\<rparr>"
      from Cons.prems p have ne: "f \<noteq> svg_file" by auto
      have a: "files ?s2 svg_file = Some svg" using Cons.prems(1) ne by simp
      have b: "svg_file \<notin> fst ` set ps" using Cons.prems(2) by simp
      have step: "png_sweep e (p # ps) s = png_sweep e ps ?s2"
        using Cons.prems(1) p Inr True
        by (simp add: cairosvg_svg2png_def print_def write_file_def)
      have m: "(files s)(f \<mapsto> png) ++ map_of (rev (sweep_writes e svg ps))
            = files s ++ map_of (rev (sweep_writes e svg ps) @ [(f, png)])"
        by (simp add: map_add_upd_left)
      show ?thesis
        unfolding step Cons.IH [OF a b]
        using p Inr True m by simp
    qed
  qed
qed


lemma logo_not_output: "svg_file \<notin> fst ` set sizes"
  by (simp add: sizes_def svg_file_def)

lemma sweep_result_ok: "sweep_result e svg ps = Inr () \<longleftrightarrow> (\<forall>p\<in>set ps. pair_ok e svg p)"
proof (induction ps)
  case Nil
  then show ?case by simp
next
  case (Cons p ps)
  obtain f n where p: "p = (f, n)" by (cases p)
  from Cons.IH show ?case
    unfolding p by (cases "svg2png e svg n n") (auto simp: pair_ok_def)
qed

lemma sweep_seen_ok: "\<forall>p\<in>set ps. pair_ok e svg p \<Longrightarrow> sweep_seen e svg ps = ps"
proof (induction ps)
  case Nil
  then show ?case by simp
next
  case (Cons p ps)
  obtain f n where p: "p = (f, n)" by (cases p)
  from Cons show ?case
    unfolding p by (cases "svg2png e svg n n") (auto simp: pair_ok_def)
qed

lemma sweep_writes_ok:
  "\<forall>p\<in>set ps. pair_ok e svg p \<Longrightarrow>
   sweep_writes e svg ps = map (\<lambda>p. (fst p, the (raster e svg (snd p)))) ps"
proof (induction ps)
  case Nil
  then show ?case by simp
next
  case (Cons p ps)
  obtain f n where p: "p = (f, n)" by (cases p)
  from Cons show ?case
    unfolding p by (cases "svg2png e svg n n") (auto simp: pair_ok_def raster_def)
qed

lemma sweep_seen_prefix: "\<exists>k. sweep_seen e svg ps = take k ps"
proof (induction ps)
  case Nil
  then show ?case by simp
next
  case (Cons p ps)
  obtain f n where p: "p = (f, n)" by (cases p)
  from Cons.IH obtain k where k: "sweep_seen e svg ps = take k ps" by blast
  have one: "[p] = take 1 (p # ps)" by simp
  have more: "p # take k ps = take (Suc k) (p # ps)" by simp
  show ?case
  proof (cases "svg2png e svg n n")
    case (Inl m)
    then have "sweep_seen e svg (p # ps) = take 1 (p # ps)" using p by simp
    then show ?thesis by blast
  next
    case (Inr png)
    show ?thesis
    proof (cases "writable e f")
      case True
      then have "sweep_seen e svg (p # ps) = take (Suc k) (p # ps)" using p Inr k by simp
      then show ?thesis by blast
    next
      case False
      then have "sweep_seen e svg (p # ps) = take 1 (p # ps)" using p Inr by simp
      then show ?thesis by blast
    qed
  qed
qed

lemma files_keep_logo:
  "svg_file \<notin> fst ` set ps \<Longrightarrow>
   (m ++ map_of (rev (sweep_writes e svg ps))) svg_file = m svg_file"
proof -
  assume a: "svg_file \<notin> fst ` set ps"
  have "svg_file \<notin> dom (map_of (rev (sweep_writes e svg ps)))"
    using a sweep_writes_keys [of e svg ps] by (auto simp: dom_map_of_conv_image_fst)
  then show ?thesis by (simp add: map_add_dom_app_simps)
qed

lemma ico_loop_stops: "\<exists>x. ico_loop e (n # ns) acc s = (Inl x, s)"
  by (cases "cairosvg_svg2png e s svg_file n n") (simp_all add: resolve_io)

lemma ico_loop_name_error:
  "cairosvg_svg2png e s svg_file n n = Inr png \<Longrightarrow>
   ico_loop e (n # ns) acc s = (Inl (NameError ''io''), s)"
  by (simp add: resolve_io)

lemma first_icon_in_sizes: "(''icon_16x16.png'', 16) \<in> set sizes"
  by (simp add: sizes_def)

lemma generate_icons_run:
  assumes imp: "do_imports e = Imported" and logo: "files s svg_file = Some svg"
  shows "generate_icons e s =
    ((case sweep_result e svg sizes of Inl x \<Rightarrow> Inl x | Inr u \<Rightarrow> Inl (NameError ''io'')),
     s\<lparr>files := files s ++ map_of (rev (sweep_writes e svg sizes)),
       stdout := stdout s @ ''Generating icons...'' # map progress_line (sweep_seen e svg sizes)
         @ (case sweep_result e svg sizes of Inl x \<Rightarrow> [] | Inr u \<Rightarrow> [''  favicon.ico''])\<rparr>)"
proof -
  let ?s0 = "print ''Generating icons...'' s"
  have l0: "files ?s0 svg_file = Some svg" using logo by (simp add: print_def)
  note sw = png_sweep_char [OF l0 logo_not_output, of e]
  show ?thesis
  proof (cases "sweep_result e svg sizes")
    case (Inl x)
    then show ?thesis
      using imp logo unfolding generate_icons_def sw by (simp add: print_def)
  next
    case (Inr u)
    then have "\<forall>p\<in>set sizes. pair_ok e svg p" by (simp add: sweep_result_ok)
    then have "pair_ok e svg (''icon_16x16.png'', 16)" using first_icon_in_sizes by blast
    then obtain png where png: "svg2png e svg 16 16 = Inr png"
      by (auto simp: pair_ok_def split: sum.splits)
    let ?s1 = "?s0\<lparr>files := files ?s0 ++ map_of (rev (sweep_writes e svg sizes)),
            stdout := stdout ?s0 @ map progress_line (sweep_seen e svg sizes)\<rparr>"
    let ?s2 = "print ''  favicon.ico'' ?s1"
    have "files ?s2 svg_file = Some svg"
      using logo files_keep_logo [OF logo_not_output] by (simp add: print_def)
    then have "cairosvg_svg2png e ?s2 svg_file 16 16 = Inr png"
      using png by (simp add: cairosvg_svg2png_def)
    then have ico: "ico_loop e ico_sizes [] ?s2 = (Inl (NameError ''io''), ?s2)"
      unfolding ico_sizes_def by (rule ico_loop_name_error)
    have "generate_icons e s = (Inl (NameError ''io''), ?s2)"
      using imp logo Inr by (simp add: generate_icons_def sw ico)
    then show ?thesis
      using Inr by (simp add: print_def)
  qed
qed

subsection \<open>How every run ends\<close>

lemma do_imports_Imported:
  "do_imports e = Imported \<longleftrightarrow> import_cairosvg e = Imported \<and> import_PIL e = Imported"
  by (cases "import_cairosvg e") (simp_all add: do_imports_def)

lemma generate_icons_import_error:
  "do_imports e = ImportError \<Longrightarrow>
   generate_icons e s =
     (Inr False,
      s\<lparr>stdout := stdout s @
          [''Required packages not found. Please install them:'',
           ''pip install cairosvg pillow'']\<rparr>)"
  by (simp add: generate_icons_def print_def)

lemma generate_icons_import_raised:
  "do_imports e = Raised m \<Longrightarrow> generate_icons e s = (Inl (External m), s)"
  by (simp add: generate_icons_def)

lemma generate_icons_no_logo:
  "do_imports e = Imported \<Longrightarrow> files s svg_file = None \<Longrightarrow>
   generate_icons e s = (Inr False, s\<lparr>stdout := stdout s @ [''SVG file logo.svg not found!'']\<rparr>)"
  by (simp add: generate_icons_def print_def svg_file_def)

lemma generate_icons_not_True: "fst (generate_icons e s) \<noteq> Inr True"
proof (cases "do_imports e")
  case ImportError
  then show ?thesis by (simp add: generate_icons_import_error)
next
  case (Raised m)
  then show ?thesis by (simp add: generate_icons_import_raised)
next
  case Imported
  show ?thesis
  proof (cases "files s svg_file")
    case None
    with Imported show ?thesis by (simp add: generate_icons_no_logo)
  next
    case (Some svg)
    with Imported show ?thesis
      by (simp add: generate_icons_run split: sum.splits)
  qed
qed

lemma exit_status_exit_of: "exit_status (exit_of r) = 0 \<longleftrightarrow> r = Inr True"
  by (cases r) (auto simp: exit_status_def exit_of_def)

lemma main_unfold: "main e s = (exit_of (fst (generate_icons e s)), snd (generate_icons e s))"
  by (cases "generate_icons e s") (simp add: main_def)

lemma main_status: "exit_status (fst (main e s)) = 1"
proof -
  obtain r s1 where g: "generate_icons e s = (r, s1)" by (cases "generate_icons e s")
  have "r \<noteq> Inr True" using generate_icons_not_True [of e s] g by simp
  then have "exit_status (exit_of r) = 1"
    by (cases r) (auto simp: exit_status_def exit_of_def)
  then show ?thesis by (simp add: main_def g)
qed

lemma generate_icons_files_outside:
  assumes "g \<notin> fst ` set sizes"
  shows "files (snd (generate_icons e s)) g = files s g"
proof (cases "do_imports e")
  case ImportError
  then show ?thesis by (simp add: generate_icons_import_error)
next
  case (Raised m)
  then show ?thesis by (simp add: generate_icons_import_raised)
next
  case Imported
  show ?thesis
  proof (cases "files s svg_file")
    case None
    with Imported show ?thesis by (simp add: generate_icons_no_logo)
  next
    case (Some svg)
    have "g \<notin> dom (map_of (rev (sweep_writes e svg sizes)))"
      using assms sweep_writes_keys [of e svg sizes] by (auto simp: dom_map_of_conv_image_fst)
    then show ?thesis
      using Imported Some by (simp add: generate_icons_run map_add_dom_app_simps)
  qed
qed

lemma failed_import_files:
  "do_imports e \<noteq> Imported \<Longrightarrow> files (snd (generate_icons e s)) = files s"
  by (cases "do_imports e")
    (simp_all add: generate_icons_import_error generate_icons_import_raised)

subsection \<open>Missing capability\<close>

text \<open>
  C6, as amended: if either of the two packages cannot be imported, no file is written,
  whatever the files are, and the run ends in failure with exit status 1. When the
  failing import raises \<open>ImportError\<close>, \<open>generate_icons\<close> returns \<open>False\<close> having only
  printed the two lines of advice; when it raises any other exception, that exception
  leaves \<open>generate_icons\<close> uncaught and nothing is printed.
\<close>

theorem failed_import_no_writes:
  "import_cairosvg e \<noteq> Imported \<or> import_PIL e \<noteq> Imported \<Longrightarrow>
   files (snd (generate_icons e s)) = files s
   \<and> fst (generate_icons e s) \<noteq> Inr True
   \<and> exit_status (fst (main e s)) = 1
   \<and> (do_imports e = ImportError \<longrightarrow>
        generate_icons e s =
          (Inr False,
           s\<lparr>stdout := stdout s @
               [''Required packages not found. Please install them:'',
                ''pip install cairosvg pillow'']\<rparr>))
   \<and> (\<forall>m. do_imports e = Raised m \<longrightarrow> generate_icons e s = (Inl (External m), s))"
proof -
  assume "import_cairosvg e \<noteq> Imported \<or> import_PIL e \<noteq> Imported"
  then have "do_imports e \<noteq> Imported" by (simp add: do_imports_Imported)
  then have a: "files (snd (generate_icons e s)) = files s" by (rule failed_import_files)
  have b: "fst (generate_icons e s) \<noteq> Inr True" by (rule generate_icons_not_True)
  have c: "exit_status (fst (main e s)) = 1" by (rule main_status)
  from a b c generate_icons_import_error [of e s] generate_icons_import_raised [of e _ s]
  show ?thesis by blast
qed

theorem failed_import_no_writes_witness:
  "import_cairosvg no_cairosvg_env \<noteq> Imported
   \<and> do_imports no_cairosvg_env = ImportError
   \<and> fst (generate_icons no_cairosvg_env demo_world) = Inr False
   \<and> files (snd (generate_icons no_cairosvg_env demo_world)) = files demo_world
   \<and> exit_status (fst (main no_cairosvg_env demo_world)) = 1"
proof -
  have h: "import_cairosvg no_cairosvg_env \<noteq> Imported"
    by (simp add: no_cairosvg_env_def demo_env_def)
  have d: "do_imports no_cairosvg_env = ImportError"
    by (simp add: do_imports_def no_cairosvg_env_def demo_env_def)
  from h have "import_cairosvg no_cairosvg_env \<noteq> Imported
      \<or> import_PIL no_cairosvg_env \<noteq> Imported" by simp
  note t = failed_import_no_writes [OF this, of demo_world]
  from t d have "fst (generate_icons no_cairosvg_env demo_world) = Inr False" by simp
  with h d t show ?thesis by (intro conjI) simp_all
qed

text \<open>
  C6 as stated fails where an import raises something other than \<open>ImportError\<close>: the
  handler of line 15 does not catch it, and \<open>generate_icons\<close> does not return \<open>False\<close>.
\<close>

theorem broken_import_not_caught:
  "import_cairosvg broken_cairosvg_env \<noteq> Imported
   \<and> fst (generate_icons broken_cairosvg_env demo_world) = Inl (External ''OSError'')
   \<and> fst (generate_icons broken_cairosvg_env demo_world) \<noteq> Inr False
   \<and> stdout (snd (generate_icons broken_cairosvg_env demo_world)) = []"
  by (simp add: generate_icons_def do_imports_def broken_cairosvg_env_def demo_env_def
      demo_world_def)

subsection \<open>Missing input file\<close>

text \<open>
  C5, as amended: if \<open>logo.svg\<close> does not exist, no file is created or modified and the
  run ends in failure with exit status 1. \<open>generate_icons\<close> returns \<open>False\<close>, unless an
  import raised an exception other than \<open>ImportError\<close>, which then leaves the function
  uncaught; and when both packages were imported, the run reports the input path with
  the one line \<open>SVG file logo.svg not found!\<close>.
\<close>

theorem missing_logo_fails:
  "files s svg_file = None \<Longrightarrow>
   files (snd (generate_icons e s)) = files s
   \<and> fst (generate_icons e s) \<noteq> Inr True
   \<and> exit_status (fst (main e s)) = 1
   \<and> ((\<forall>m. do_imports e \<noteq> Raised m) \<longrightarrow> fst (generate_icons e s) = Inr False)
   \<and> (\<forall>m. do_imports e = Raised m \<longrightarrow> fst (generate_icons e s) = Inl (External m))
   \<and> (import_cairosvg e = Imported \<and> import_PIL e = Imported \<longrightarrow>
        generate_icons e s =
          (Inr False, s\<lparr>stdout := stdout s @ [''SVG file logo.svg not found!'']\<rparr>))"
proof -
  assume logo: "files s svg_file = None"
  have b: "fst (generate_icons e s) \<noteq> Inr True" by (rule generate_icons_not_True)
  have c: "exit_status (fst (main e s)) = 1" by (rule main_status)
  have r: "\<forall>m. do_imports e = Raised m \<longrightarrow> fst (generate_icons e s) = Inl (External m)"
    by (simp add: generate_icons_import_raised)
  show ?thesis
  proof (cases "do_imports e")
    case ImportError
    then have "generate_icons e s =
      (Inr False,
       s\<lparr>stdout := stdout s @
           [''Required packages not found. Please install them:'',
            ''pip install cairosvg pillow'']\<rparr>)"
      by (rule generate_icons_import_error)
    then have "files (snd (generate_icons e s)) = files s"
      and "fst (generate_icons e s) = Inr False" by simp_all
    moreover have "\<not> (import_cairosvg e = Imported \<and> import_PIL e = Imported)"
      using ImportError by (simp add: do_imports_Imported [symmetric])
    ultimately show ?thesis using b c r by blast
  next
    case (Raised m)
    then have "generate_icons e s = (Inl (External m), s)"
      by (rule generate_icons_import_raised)
    then have "files (snd (generate_icons e s)) = files s" by simp
    moreover have "\<not> (import_cairosvg e = Imported \<and> import_PIL e = Imported)"
      using Raised by (simp add: do_imports_Imported [symmetric])
    moreover have "\<not> (\<forall>m. do_imports e \<noteq> Raised m)" using Raised by simp
    ultimately show ?thesis using b c r by blast
  next
    case Imported
    then have g: "generate_icons e s =
      (Inr False, s\<lparr>stdout := stdout s @ [''SVG file logo.svg not found!'']\<rparr>)"
      using logo by (rule generate_icons_no_logo)
    then have "files (snd (generate_icons e s)) = files s"
      and "fst (generate_icons e s) = Inr False" by simp_all
    with g b c r show ?thesis by blast
  qed
qed

theorem missing_logo_fails_witness:
  "files empty_world svg_file = None
   \<and> import_cairosvg demo_env = Imported \<and> import_PIL demo_env = Imported
   \<and> fst (generate_icons demo_env empty_world) = Inr False
   \<and> files (snd (generate_icons demo_env empty_world)) = files empty_world
   \<and> stdout (snd (generate_icons demo_env empty_world)) = [''SVG file logo.svg not found!'']
   \<and> exit_status (fst (main demo_env empty_world)) = 1"
proof -
  have h: "files empty_world svg_file = None" by (simp add: empty_world_def)
  have i: "import_cairosvg demo_env = Imported" "import_PIL demo_env = Imported"
    by (simp_all add: demo_env_def)
  have o: "stdout empty_world = []" by (simp add: empty_world_def)
  note t = missing_logo_fails [OF h, of demo_env]
  from t i have g: "generate_icons demo_env empty_world =
      (Inr False, empty_world\<lparr>stdout := stdout empty_world @ [''SVG file logo.svg not found!'']\<rparr>)"
    by blast
  have g1: "fst (generate_icons demo_env empty_world) = Inr False" by (simp add: g)
  have g2: "files (snd (generate_icons demo_env empty_world)) = files empty_world"
    by (simp add: g)
  have g3: "stdout (snd (generate_icons demo_env empty_world)) = [''SVG file logo.svg not found!'']"
    by (simp add: g o)
  have g4: "exit_status (fst (main demo_env empty_world)) = 1"
    using t by blast
  from h i g1 g2 g3 g4 show ?thesis by (intro conjI)
qed

text \<open>
  C5 as stated fails where a package is missing as well: the capability check comes
  first, and its two lines of advice do not name the input path. And where an import
  raises something other than \<open>ImportError\<close>, \<open>generate_icons\<close> does not return at all.
\<close>

theorem missing_logo_path_not_reported:
  "files empty_world svg_file = None
   \<and> fst (generate_icons no_cairosvg_env empty_world) = Inr False
   \<and> stdout (snd (generate_icons no_cairosvg_env empty_world)) =
       [''Required packages not found. Please install them:'', ''pip install cairosvg pillow'']
   \<and> ''SVG file logo.svg not found!'' \<notin> set (stdout (snd (generate_icons no_cairosvg_env empty_world)))
   \<and> fst (generate_icons broken_cairosvg_env empty_world) = Inl (External ''OSError'')
   \<and> stdout (snd (generate_icons broken_cairosvg_env empty_world)) = []"
  by (simp add: generate_icons_def do_imports_def no_cairosvg_env_def broken_cairosvg_env_def
      demo_env_def empty_world_def print_def)

subsection \<open>Exit status\<close>

text \<open>
  C8: the entry point turns the outcome of \<open>generate_icons\<close> into the exit status,
  which is 0 exactly for the return value \<open>True\<close>. When a package cannot be imported
  or \<open>logo.svg\<close> is absent, the status is 1: through \<open>sys.exit(1)\<close> after the return
  value \<open>False\<close>, when the import raised \<open>ImportError\<close> or the input check failed, and
  through the uncaught exception, when the import raised anything else.
\<close>

theorem exit_status_of_outcome:
  "(exit_status (exit_of r) = 0 \<longleftrightarrow> r = Inr True)
   \<and> main e s = (exit_of (fst (generate_icons e s)), snd (generate_icons e s))
   \<and> (import_cairosvg e \<noteq> Imported \<or> import_PIL e \<noteq> Imported \<or> files s svg_file = None \<longrightarrow>
        exit_status (fst (main e s)) = 1)
   \<and> (do_imports e = ImportError \<or> do_imports e = Imported \<and> files s svg_file = None \<longrightarrow>
        fst (generate_icons e s) = Inr False \<and> fst (main e s) = Inr 1)
   \<and> (\<forall>m. do_imports e = Raised m \<longrightarrow>
        fst (generate_icons e s) = Inl (External m) \<and> fst (main e s) = Inl (External m))"
proof -
  note a = main_unfold [of e s]
  have b: "fst (generate_icons e s) = Inr False"
    if "do_imports e = ImportError \<or> do_imports e = Imported \<and> files s svg_file = None"
    using that by (auto simp: generate_icons_import_error generate_icons_no_logo)
  have c: "fst (main e s) = Inr 1"
    if "do_imports e = ImportError \<or> do_imports e = Imported \<and> files s svg_file = None"
    using b [OF that] by (simp add: a exit_of_def)
  have d: "exit_status (exit_of r) = 0 \<longleftrightarrow> r = Inr True"
    by (rule exit_status_exit_of)
  have f: "fst (generate_icons e s) = Inl (External m) \<and> fst (main e s) = Inl (External m)"
    if "do_imports e = Raised m" for m
    using that by (simp add: a generate_icons_import_raised exit_of_def)
  from a b c d f show ?thesis
    using main_status [of e s] by blast
qed

theorem exit_status_of_outcome_witness:
  "exit_status (exit_of (Inr True)) = 0
   \<and> import_cairosvg no_cairosvg_env \<noteq> Imported
   \<and> fst (main no_cairosvg_env demo_world) = Inr 1
   \<and> exit_status (fst (main no_cairosvg_env demo_world)) = 1
   \<and> files empty_world svg_file = None
   \<and> fst (main demo_env empty_world) = Inr 1
   \<and> exit_status (fst (main demo_env empty_world)) = 1
   \<and> import_cairosvg broken_cairosvg_env \<noteq> Imported
   \<and> fst (main broken_cairosvg_env demo_world) = Inl (External ''OSError'')
   \<and> exit_status (fst (main broken_cairosvg_env demo_world)) = 1"
proof -
  have h: "import_cairosvg no_cairosvg_env \<noteq> Imported"
    "do_imports no_cairosvg_env = ImportError"
    by (simp_all add: do_imports_def no_cairosvg_env_def demo_env_def)
  have k: "import_cairosvg broken_cairosvg_env \<noteq> Imported"
    "do_imports broken_cairosvg_env = Raised ''OSError''"
    by (simp_all add: do_imports_def broken_cairosvg_env_def demo_env_def)
  have l: "files empty_world svg_file = None" "do_imports demo_env = Imported"
    by (simp_all add: empty_world_def do_imports_def demo_env_def)
  from exit_status_of_outcome [of "Inr True" no_cairosvg_env demo_world]
       exit_status_of_outcome [of "Inr True" demo_env empty_world]
       exit_status_of_outcome [of "Inr True" broken_cairosvg_env demo_world] h k l
  show ?thesis by blast
qed

subsection \<open>The ICO assembly stops every run that reaches it\<close>

lemma progress_lines_sizes:
  "map progress_line sizes =
    [''  icon_16x16.png (16x16)'', ''  icon_32x32.png (32x32)'',
     ''  icon_128x128.png (128x128)'', ''  icon_256x256.png (256x256)'',
     ''  icon_512x512.png (512x512)'', ''  icon_1024x1024.png (1024x1024)'',
     ''  favicon-16x16.png (16x16)'', ''  favicon-32x32.png (32x32)'',
     ''  favicon-96x96.png (96x96)'', ''  favicon-192x192.png (192x192)'',
     ''  apple-touch-icon.png (180x180)'']"
  by (simp add: sizes_def progress_line_def str_nat_values)

lemma sweep_lines_no_banner: "icns_banner \<notin> set (map progress_line sizes)"
  unfolding progress_lines_sizes by (simp add: icns_banner_def)

lemma sweep_lines_no_instructions: "set (map progress_line sizes) \<inter> set instructions = {}"
  unfolding progress_lines_sizes by (simp add: instructions_def)

lemma fixed_lines_no_banner:
  "icns_banner \<notin> {''Generating icons...'', ''  favicon.ico'',
      ''Required packages not found. Please install them:'', ''pip install cairosvg pillow'',
      ''SVG file logo.svg not found!''}"
  by (simp add: icns_banner_def)

lemma fixed_lines_no_instructions:
  "{''Generating icons...'', ''  favicon.ico'',
      ''Required packages not found. Please install them:'', ''pip install cairosvg pillow'',
      ''SVG file logo.svg not found!''} \<inter> set instructions = {}"
  by (simp add: instructions_def)

lemma subset_glue:
  "G \<subseteq> B \<Longrightarrow> S \<subseteq> A \<Longrightarrow> T \<subseteq> B \<Longrightarrow> X = G \<union> S \<union> T \<Longrightarrow> X \<subseteq> A \<union> B"
  by blast

lemma clean_subset:
  "X \<subseteq> A \<union> B \<Longrightarrow> b \<notin> A \<Longrightarrow> b \<notin> B \<Longrightarrow> A \<inter> I = {} \<Longrightarrow> B \<inter> I = {} \<Longrightarrow>
   b \<notin> X \<and> X \<inter> I = {}"
  by blast

lemma seen_lines_subset:
  "set (map progress_line (sweep_seen e svg ps)) \<subseteq> set (map progress_line ps)"
proof -
  obtain k where "sweep_seen e svg ps = take k ps" using sweep_seen_prefix by blast
  then show ?thesis using set_take_subset [of k ps] by auto
qed

lemma favicon_not_in_sizes: "''favicon.ico'' \<notin> fst ` set sizes"
  by (simp add: sizes_def)

lemma generate_icons_output:
  "\<exists>out. stdout (snd (generate_icons e s)) = stdout s @ out
     \<and> icns_banner \<notin> set out \<and> set out \<inter> set instructions = {}"
proof -
  let ?A = "set (map progress_line sizes)"
  let ?B = "{''Generating icons...'', ''  favicon.ico'',
      ''Required packages not found. Please install them:'', ''pip install cairosvg pillow'',
      ''SVG file logo.svg not found!''}"
  have "\<exists>out. stdout (snd (generate_icons e s)) = stdout s @ out \<and> set out \<subseteq> ?A \<union> ?B"
  proof (cases "do_imports e")
    case ImportError
    let ?out = "[''Required packages not found. Please install them:'',
                 ''pip install cairosvg pillow'']"
    have "stdout (snd (generate_icons e s)) = stdout s @ ?out"
      using ImportError by (simp add: generate_icons_import_error)
    moreover have "set ?out \<subseteq> ?A \<union> ?B" by simp
    ultimately show ?thesis by blast
  next
    case (Raised m)
    have "stdout (snd (generate_icons e s)) = stdout s @ []"
      using Raised by (simp add: generate_icons_import_raised)
    moreover have "set [] \<subseteq> ?A \<union> ?B" by simp
    ultimately show ?thesis by blast
  next
    case Imported
    show ?thesis
    proof (cases "files s svg_file")
      case None
      let ?out = "[''SVG file logo.svg not found!'']"
      have "stdout (snd (generate_icons e s)) = stdout s @ ?out"
        using Imported None by (simp add: generate_icons_no_logo)
      moreover have "set ?out \<subseteq> ?A \<union> ?B" by simp
      ultimately show ?thesis by blast
    next
      case (Some svg)
      let ?tail = "case sweep_result e svg sizes of Inl x \<Rightarrow> [] | Inr u \<Rightarrow> [''  favicon.ico'']"
      let ?out = "''Generating icons...'' # map progress_line (sweep_seen e svg sizes) @ ?tail"
      have a: "stdout (snd (generate_icons e s)) = stdout s @ ?out"
        using Imported Some by (simp add: generate_icons_run)
      have t: "set ?tail \<subseteq> ?B"
        by (cases "sweep_result e svg sizes") simp_all
      have g: "set [''Generating icons...''] \<subseteq> ?B" by simp
      have "set ?out = set [''Generating icons...'']
          \<union> set (map progress_line (sweep_seen e svg sizes)) \<union> set ?tail"
        by (simp only: set_append set_simps) blast
      then have "set ?out \<subseteq> ?A \<union> ?B"
        by (rule subset_glue [OF g seen_lines_subset t])
      with a show ?thesis by blast
    qed
  qed
  then obtain out where o: "stdout (snd (generate_icons e s)) = stdout s @ out"
    and sub: "set out \<subseteq> ?A \<union> ?B" by blast
  have "icns_banner \<notin> set out \<and> set out \<inter> set instructions = {}"
    by (rule clean_subset [OF sub sweep_lines_no_banner fixed_lines_no_banner
          sweep_lines_no_instructions fixed_lines_no_instructions])
  with o show ?thesis by blast
qed

lemma sweep_completes_result:
  assumes "files s svg_file = Some svg"
    and "fst (png_sweep e sizes (print ''Generating icons...'' s)) = Inr ()"
  shows "sweep_result e svg sizes = Inr ()"
proof -
  have "files (print ''Generating icons...'' s) svg_file = Some svg"
    using assms(1) by (simp add: print_def)
  from png_sweep_char [OF this logo_not_output, of e] assms(2) show ?thesis by simp
qed

text \<open>
  C2: when both imports succeed, \<open>logo.svg\<close> exists and the PNG sweep completes, the
  exception \<open>NameError\<close> for the name \<open>io\<close> leaves \<open>generate_icons\<close>. In every run
  whatsoever, \<open>generate_icons\<close> does not return \<open>True\<close>, \<open>favicon.ico\<close> is left as it
  was, neither the ICNS banner nor any line of the closing instructions is printed,
  and the exit status is not 0.
\<close>

theorem ico_assembly_name_error:
  "(import_cairosvg e = Imported \<and> import_PIL e = Imported \<and> files s svg_file \<noteq> None
      \<and> fst (png_sweep e sizes (print ''Generating icons...'' s)) = Inr ()
    \<longrightarrow> fst (generate_icons e s) = Inl (NameError ''io''))
   \<and> fst (generate_icons e s) \<noteq> Inr True
   \<and> files (snd (generate_icons e s)) ''favicon.ico'' = files s ''favicon.ico''
   \<and> (\<exists>out. stdout (snd (generate_icons e s)) = stdout s @ out
         \<and> icns_banner \<notin> set out \<and> set out \<inter> set instructions = {})
   \<and> exit_status (fst (main e s)) \<noteq> 0"
proof -
  have a: "fst (generate_icons e s) = Inl (NameError ''io'')"
    if h: "import_cairosvg e = Imported \<and> import_PIL e = Imported \<and> files s svg_file \<noteq> None
      \<and> fst (png_sweep e sizes (print ''Generating icons...'' s)) = Inr ()"
  proof -
    from h have imp: "do_imports e = Imported" by (simp add: do_imports_Imported)
    from h obtain svg where svg: "files s svg_file = Some svg" by blast
    with h have "sweep_result e svg sizes = Inr ()" by (simp add: sweep_completes_result)
    with imp svg show ?thesis by (simp add: generate_icons_run)
  qed
  have b: "files (snd (generate_icons e s)) ''favicon.ico'' = files s ''favicon.ico''"
    using favicon_not_in_sizes by (rule generate_icons_files_outside)
  have c: "exit_status (fst (main e s)) \<noteq> 0" by (simp add: main_status)
  from a b c generate_icons_not_True [of e s] generate_icons_output [of e s]
  show ?thesis by blast
qed

lemma demo_pairs_ok: "\<forall>p\<in>set sizes. pair_ok demo_env svg p"
  by (simp add: pair_ok_def demo_env_def)

lemma demo_sweep_completes:
  assumes "files s svg_file = Some svg"
  shows "fst (png_sweep demo_env sizes (print l s)) = Inr ()"
proof -
  have "files (print l s) svg_file = Some svg" using assms by (simp add: print_def)
  from png_sweep_char [OF this logo_not_output, of demo_env] show ?thesis
    using demo_pairs_ok by (simp add: sweep_result_ok)
qed

theorem ico_assembly_name_error_witness:
  "import_cairosvg demo_env = Imported \<and> import_PIL demo_env = Imported
   \<and> files old_world svg_file \<noteq> None
   \<and> fst (png_sweep demo_env sizes (print ''Generating icons...'' old_world)) = Inr ()
   \<and> fst (generate_icons demo_env old_world) = Inl (NameError ''io'')
   \<and> files (snd (generate_icons demo_env old_world)) ''favicon.ico'' = Some ''old''"
proof -
  have i: "import_cairosvg demo_env = Imported \<and> import_PIL demo_env = Imported"
    by (simp add: demo_env_def)
  have l: "files old_world svg_file = Some ''<svg/>''"
    by (simp add: old_world_def svg_file_def)
  have f: "files old_world ''favicon.ico'' = Some ''old''" by (simp add: old_world_def)
  note sw = demo_sweep_completes [OF l]
  from ico_assembly_name_error [of demo_env old_world] i l f sw show ?thesis by simp
qed

subsection \<open>The ICO file\<close>

text \<open>
  C3 fails on the code. On a run with both packages, a \<open>logo.svg\<close> that the rasterizer
  accepts at 16, 32, 48 and 64, and every file writable, the first round of the ICO
  loop raises \<open>NameError\<close> for \<open>io\<close>: no image handle is made and \<open>favicon.ico\<close> is not
  written.
\<close>

theorem ico_never_written:
  "map (\<lambda>n. svg2png demo_env ''<svg/>'' n n) ico_sizes =
     [Inr ''<svg/>16'', Inr ''<svg/>32'', Inr ''<svg/>48'', Inr ''<svg/>64'']
   \<and> fst (ico_loop demo_env ico_sizes [] demo_world) = Inl (NameError ''io'')
   \<and> fst (generate_icons demo_env demo_world) = Inl (NameError ''io'')
   \<and> files (snd (generate_icons demo_env demo_world)) ''favicon.ico'' = None"
proof -
  have i: "do_imports demo_env = Imported" by (simp add: do_imports_def demo_env_def)
  have l: "files demo_world svg_file = Some ''<svg/>''"
    by (simp add: demo_world_def svg_file_def)
  have r: "map (\<lambda>n. svg2png demo_env ''<svg/>'' n n) ico_sizes =
     [Inr ''<svg/>16'', Inr ''<svg/>32'', Inr ''<svg/>48'', Inr ''<svg/>64'']"
    by (simp add: ico_sizes_def demo_env_def str_nat_values)
  have "cairosvg_svg2png demo_env demo_world svg_file 16 16 = Inr ''<svg/>16''"
    using l by (simp add: cairosvg_svg2png_def demo_env_def str_nat_values)
  then have "ico_loop demo_env (16 # [32, 48, 64]) [] demo_world
      = (Inl (NameError ''io''), demo_world)"
    by (rule ico_loop_name_error)
  then have a: "fst (ico_loop demo_env ico_sizes [] demo_world) = Inl (NameError ''io'')"
    unfolding ico_sizes_def by (simp only: fst_conv)
  have "sweep_result demo_env ''<svg/>'' sizes = Inr ()"
    using demo_pairs_ok by (simp add: sweep_result_ok)
  then have b: "fst (generate_icons demo_env demo_world) = Inl (NameError ''io'')"
    by (simp add: generate_icons_run [OF i l])
  have "files (snd (generate_icons demo_env demo_world)) ''favicon.ico''
      = files demo_world ''favicon.ico''"
    using favicon_not_in_sizes by (rule generate_icons_files_outside)
  then have c: "files (snd (generate_icons demo_env demo_world)) ''favicon.ico'' = None"
    by (simp add: demo_world_def)
  from r a b c show ?thesis by simp
qed

subsection \<open>Running twice\<close>

lemma map_add_twice: "(m ++ w) ++ w = m ++ (w :: 'a \<rightharpoonup> 'b)"
proof -
  have "w ++ w = w" by (rule map_add_subsumed1) (rule map_le_refl)
  then show ?thesis by (simp add: map_add_assoc [symmetric])
qed

text \<open>
  C10: a second run on the world the first run left behind ends the same way and
  leaves every file with the content the first run gave it; \<open>logo.svg\<close> itself is
  never changed. The rasterizer is a function of the SVG bytes and the size.
\<close>

theorem second_run_same_files:
  "files (snd (generate_icons e (snd (generate_icons e s)))) = files (snd (generate_icons e s))
   \<and> fst (generate_icons e (snd (generate_icons e s))) = fst (generate_icons e s)
   \<and> files (snd (generate_icons e s)) svg_file = files s svg_file"
proof (cases "do_imports e")
  case ImportError
  then show ?thesis by (simp add: generate_icons_import_error)
next
  case (Raised m)
  then show ?thesis by (simp add: generate_icons_import_raised)
next
  case Imported
  show ?thesis
  proof (cases "files s svg_file")
    case None
    with Imported show ?thesis by (simp add: generate_icons_no_logo)
  next
    case (Some svg)
    let ?w = "map_of (rev (sweep_writes e svg sizes))"
    obtain r out where first: "generate_icons e s =
        (r, s\<lparr>files := files s ++ ?w, stdout := out\<rparr>)"
      and r: "r = (case sweep_result e svg sizes of Inl x \<Rightarrow> Inl x | Inr u \<Rightarrow> Inl (NameError ''io''))"
      using Imported Some generate_icons_run [of e s svg] by blast
    let ?s1 = "s\<lparr>files := files s ++ ?w, stdout := out\<rparr>"
    have keep: "files ?s1 svg_file = Some svg"
      using Some files_keep_logo [OF logo_not_output] by simp
    have second: "generate_icons e ?s1 =
        (r, ?s1\<lparr>files := files ?s1 ++ ?w,
                stdout := stdout ?s1 @ ''Generating icons...'' #
                  map progress_line (sweep_seen e svg sizes) @
                  (case sweep_result e svg sizes of Inl x \<Rightarrow> [] | Inr u \<Rightarrow> [''  favicon.ico''])\<rparr>)"
      using Imported keep r generate_icons_run [of e ?s1 svg] by blast
    show ?thesis
      unfolding first using keep Some by (simp add: second map_add_twice)
  qed
qed

subsection \<open>The PNG sweep\<close>

lemma distinct_sizes: "distinct (map fst sizes)"
  by (simp add: sizes_def)

lemma pair_ok_raster:
  "pair_ok e svg p \<Longrightarrow>
   \<exists>png. svg2png e svg (snd p) (snd p) = Inr png \<and> raster e svg (snd p) = Some png"
  by (cases "svg2png e svg (snd p) (snd p)") (simp_all add: pair_ok_def raster_def)

lemma map_of_rev_member:
  "distinct (map fst ws) \<Longrightarrow> (k, v) \<in> set ws \<Longrightarrow> map_of (rev ws) k = Some v"
proof -
  assume d: "distinct (map fst ws)" and m: "(k, v) \<in> set ws"
  have "distinct (map fst (rev ws))" using d by (simp add: rev_map [symmetric])
  moreover have "(k, v) \<in> set (rev ws)" using m by simp
  ultimately show ?thesis by (rule map_of_is_SomeI)
qed

lemma outside_writes:
  "g \<notin> fst ` set ps \<Longrightarrow> (m ++ map_of (rev (sweep_writes e svg ps))) g = m g"
proof -
  assume a: "g \<notin> fst ` set ps"
  have "g \<notin> dom (map_of (rev (sweep_writes e svg ps)))"
    using a sweep_writes_keys [of e svg ps] by (auto simp: dom_map_of_conv_image_fst)
  then show ?thesis by (simp add: map_add_dom_app_simps)
qed

lemma png_sweep_all_ok:
  assumes logo: "files s svg_file = Some svg"
    and out: "svg_file \<notin> fst ` set ps"
    and dist: "distinct (map fst ps)"
    and ok: "\<forall>p\<in>set ps. pair_ok e svg p"
  shows "fst (png_sweep e ps s) = Inr ()"
    and "stdout (snd (png_sweep e ps s)) = stdout s @ map progress_line ps"
    and "\<forall>p\<in>set ps. \<exists>png. svg2png e svg (snd p) (snd p) = Inr png
           \<and> files (snd (png_sweep e ps s)) (fst p) = Some png"
    and "\<forall>g. g \<notin> fst ` set ps \<longrightarrow> files (snd (png_sweep e ps s)) g = files s g"
proof -
  let ?ws = "map (\<lambda>p. (fst p, the (raster e svg (snd p)))) ps"
  have w: "sweep_writes e svg ps = ?ws" using ok by (rule sweep_writes_ok)
  have r: "sweep_result e svg ps = Inr ()" using ok by (simp add: sweep_result_ok)
  have sn: "sweep_seen e svg ps = ps" using ok by (rule sweep_seen_ok)
  note ch = png_sweep_char [OF logo out, of e]
  show "fst (png_sweep e ps s) = Inr ()" by (simp add: ch r)
  show "stdout (snd (png_sweep e ps s)) = stdout s @ map progress_line ps"
    by (simp add: ch sn)
  have fs: "files (snd (png_sweep e ps s)) = files s ++ map_of (rev ?ws)"
    by (simp add: ch w)
  have dw: "distinct (map fst ?ws)" using dist by (simp add: comp_def)
  show "\<forall>p\<in>set ps. \<exists>png. svg2png e svg (snd p) (snd p) = Inr png
           \<and> files (snd (png_sweep e ps s)) (fst p) = Some png"
  proof
    fix p assume p: "p \<in> set ps"
    with ok have "pair_ok e svg p" by blast
    then obtain png where png: "svg2png e svg (snd p) (snd p) = Inr png"
      and ra: "raster e svg (snd p) = Some png" using pair_ok_raster by blast
    have "(fst p, png) \<in> set ?ws" using p ra by force
    with dw have "map_of (rev ?ws) (fst p) = Some png" by (rule map_of_rev_member)
    then have "files (snd (png_sweep e ps s)) (fst p) = Some png"
      unfolding fs by (rule map_add_find_right)
    with png show "\<exists>png. svg2png e svg (snd p) (snd p) = Inr png
           \<and> files (snd (png_sweep e ps s)) (fst p) = Some png" by blast
  qed
  show "\<forall>g. g \<notin> fst ` set ps \<longrightarrow> files (snd (png_sweep e ps s)) g = files s g"
    using outside_writes [of _ ps "files s" e svg] by (simp add: ch)
qed

text \<open>
  C7: started where \<open>logo.svg\<close> exists, with a rasterizer that succeeds at every size of
  the mapping and every file of the mapping writable, the sweep completes; it announces
  the 11 pairs in the mapping's order; each file name of the mapping then holds the
  raster made at its size by its size, whatever it held before; and no other file is
  touched. The mapping has 11 pairs with pairwise different names, among them
  \<open>icon_16x16.png\<close> at 16 and \<open>apple-touch-icon.png\<close> at 180.
\<close>

theorem png_sweep_writes_mapping:
  assumes "files s svg_file = Some svg" and "\<forall>p\<in>set sizes. pair_ok e svg p"
  shows "fst (png_sweep e sizes s) = Inr ()
    \<and> stdout (snd (png_sweep e sizes s)) = stdout s @ map progress_line sizes
    \<and> (\<forall>p\<in>set sizes. \<exists>png. svg2png e svg (snd p) (snd p) = Inr png
          \<and> files (snd (png_sweep e sizes s)) (fst p) = Some png)
    \<and> (\<forall>g. g \<notin> fst ` set sizes \<longrightarrow> files (snd (png_sweep e sizes s)) g = files s g)
    \<and> length sizes = 11 \<and> distinct (map fst sizes)
    \<and> map_of sizes ''icon_16x16.png'' = Some 16
    \<and> map_of sizes ''apple-touch-icon.png'' = Some 180"
proof -
  note a = png_sweep_all_ok [OF assms(1) logo_not_output distinct_sizes assms(2)]
  have b: "length sizes = 11" by (simp add: sizes_def)
  have c: "map_of sizes ''icon_16x16.png'' = Some 16" by (simp add: sizes_def)
  have d: "map_of sizes ''apple-touch-icon.png'' = Some 180" by (simp add: sizes_def)
  from a b c d distinct_sizes show ?thesis by blast
qed

theorem png_sweep_writes_mapping_witness:
  "files old_world svg_file = Some ''<svg/>''
   \<and> files old_world ''icon_16x16.png'' = Some ''stale''
   \<and> pair_ok demo_env ''<svg/>'' (''icon_16x16.png'', 16)
   \<and> pair_ok demo_env ''<svg/>'' (''apple-touch-icon.png'', 180)
   \<and> fst (png_sweep demo_env sizes old_world) = Inr ()
   \<and> stdout (snd (png_sweep demo_env sizes old_world)) = map progress_line sizes
   \<and> files (snd (png_sweep demo_env sizes old_world)) ''icon_16x16.png'' = Some ''<svg/>16''
   \<and> files (snd (png_sweep demo_env sizes old_world)) ''apple-touch-icon.png'' = Some ''<svg/>180''
   \<and> files (snd (png_sweep demo_env sizes old_world)) ''favicon.ico'' = Some ''old''"
proof -
  have l: "files old_world svg_file = Some ''<svg/>''"
    by (simp add: old_world_def svg_file_def)
  have o: "stdout old_world = []" "files old_world ''favicon.ico'' = Some ''old''"
    by (simp_all add: old_world_def)
  have m: "(''icon_16x16.png'', 16) \<in> set sizes" "(''apple-touch-icon.png'', 180) \<in> set sizes"
    by (simp_all add: sizes_def)
  have r: "svg2png demo_env ''<svg/>'' 16 16 = Inr ''<svg/>16''"
    "svg2png demo_env ''<svg/>'' 180 180 = Inr ''<svg/>180''"
    by (simp_all add: demo_env_def str_nat_values)
  note t = png_sweep_writes_mapping [OF l demo_pairs_ok]
  from t m r have
    "files (snd (png_sweep demo_env sizes old_world)) ''icon_16x16.png'' = Some ''<svg/>16''"
    "files (snd (png_sweep demo_env sizes old_world)) ''apple-touch-icon.png'' = Some ''<svg/>180''"
    by fastforce+
  moreover from t favicon_not_in_sizes o have
    "files (snd (png_sweep demo_env sizes old_world)) ''favicon.ico'' = Some ''old''"
    by simp
  moreover have "files old_world ''icon_16x16.png'' = Some ''stale''"
    by (simp add: old_world_def)
  ultimately show ?thesis
    using t l o demo_pairs_ok m by simp
qed

subsection \<open>A rasterizer failure during the sweep\<close>

lemma sweep_at_failure:
  assumes "\<forall>p\<in>set pre. pair_ok e svg p" and "svg2png e svg n n = Inl m"
  shows "sweep_result e svg (pre @ (f, n) # post) = Inl (External m)"
    and "sweep_seen e svg (pre @ (f, n) # post) = pre @ [(f, n)]"
    and "sweep_writes e svg (pre @ (f, n) # post) = sweep_writes e svg pre"
  using assms
proof (induction pre)
  case Nil
  { case 1 then show ?case by simp }
  { case 2 then show ?case by simp }
  { case 3 then show ?case by simp }
next
  case (Cons p pre)
  obtain g k where p: "p = (g, k)" by (cases p)
  { case 1
    then have "pair_ok e svg (g, k)" using p by simp
    then obtain png where "svg2png e svg k k = Inr png" "writable e g"
      by (auto simp: pair_ok_def split: sum.splits)
    with 1 Cons.IH(1) p show ?case by simp }
  { case 2
    then have "pair_ok e svg (g, k)" using p by simp
    then obtain png where "svg2png e svg k k = Inr png" "writable e g"
      by (auto simp: pair_ok_def split: sum.splits)
    with 2 Cons.IH(2) p show ?case by simp }
  { case 3
    then have "pair_ok e svg (g, k)" using p by simp
    then obtain png where "svg2png e svg k k = Inr png" "writable e g"
      by (auto simp: pair_ok_def split: sum.splits)
    with 3 Cons.IH(3) p show ?case by simp }
qed

text \<open>
  C9: when the rasterizer raises at some pair of the mapping, having succeeded on the
  pairs before it, its exception leaves \<open>generate_icons\<close> and the entry point uncaught
  and the process ends with status 1; the pairs announced are those up to the failing
  one and no later one; and the file of the failing pair, the files of the later pairs
  and every file outside the earlier pairs are as they were.
\<close>

theorem sweep_failure_propagates:
  assumes "import_cairosvg e = Imported" and "import_PIL e = Imported"
    and "files s svg_file = Some svg"
    and "sizes = pre @ (f, n) # post"
    and "\<forall>p\<in>set pre. pair_ok e svg p"
    and "svg2png e svg n n = Inl m"
  shows "fst (generate_icons e s) = Inl (External m)
    \<and> fst (main e s) = Inl (External m)
    \<and> exit_status (fst (main e s)) = 1
    \<and> stdout (snd (generate_icons e s)) =
        stdout s @ ''Generating icons...'' # map progress_line (pre @ [(f, n)])
    \<and> (\<forall>g. g \<notin> fst ` set pre \<longrightarrow> files (snd (generate_icons e s)) g = files s g)
    \<and> (\<forall>p\<in>set ((f, n) # post). files (snd (generate_icons e s)) (fst p) = files s (fst p))"
proof -
  have imp: "do_imports e = Imported"
    using assms(1) assms(2) by (simp add: do_imports_Imported)
  note fl = sweep_at_failure [OF assms(5) assms(6), of f post]
  note run = generate_icons_run [OF imp assms(3), unfolded assms(4) fl]
  have a: "fst (generate_icons e s) = Inl (External m)"
    unfolding assms(4) [symmetric] run by simp
  have b: "fst (main e s) = Inl (External m)"
    using a by (cases "generate_icons e s") (simp add: main_def exit_of_def)
  have c: "stdout (snd (generate_icons e s)) =
        stdout s @ ''Generating icons...'' # map progress_line (pre @ [(f, n)])"
    unfolding assms(4) [symmetric] run by simp
  have fs: "files (snd (generate_icons e s)) = files s ++ map_of (rev (sweep_writes e svg pre))"
    unfolding assms(4) [symmetric] run by simp
  have d: "files (snd (generate_icons e s)) g = files s g" if "g \<notin> fst ` set pre" for g
    unfolding fs using that by (rule outside_writes)
  have "distinct (map fst (pre @ (f, n) # post))"
    using distinct_sizes unfolding assms(4) .
  then have "fst ` set pre \<inter> fst ` set ((f, n) # post) = {}"
    by simp
  then have "fst p \<notin> fst ` set pre" if "p \<in> set ((f, n) # post)" for p
    using that by blast
  then have e: "\<forall>p\<in>set ((f, n) # post). files (snd (generate_icons e s)) (fst p) = files s (fst p)"
    using d by blast
  have st: "exit_status (fst (main e s)) = 1" by (rule main_status)
  have d': "\<forall>g. g \<notin> fst ` set pre \<longrightarrow> files (snd (generate_icons e s)) g = files s g"
    using d by blast
  from a b st c d' e show ?thesis by (intro conjI)
qed

lemma failing_env_facts:
  "import_cairosvg failing_env = Imported" "import_PIL failing_env = Imported"
  "svg2png failing_env svg 128 128 = Inl ''bad''"
  "pair_ok failing_env svg (''icon_16x16.png'', 16)"
  "pair_ok failing_env svg (''icon_32x32.png'', 32)"
  by (simp_all add: failing_env_def demo_env_def pair_ok_def)

theorem sweep_failure_propagates_witness:
  "import_cairosvg failing_env = Imported \<and> import_PIL failing_env = Imported
   \<and> files demo_world svg_file = Some ''<svg/>''
   \<and> sizes = [(''icon_16x16.png'', 16), (''icon_32x32.png'', 32)]
        @ (''icon_128x128.png'', 128) # drop 3 sizes
   \<and> pair_ok failing_env ''<svg/>'' (''icon_16x16.png'', 16)
   \<and> pair_ok failing_env ''<svg/>'' (''icon_32x32.png'', 32)
   \<and> svg2png failing_env ''<svg/>'' 128 128 = Inl ''bad''
   \<and> fst (generate_icons failing_env demo_world) = Inl (External ''bad'')
   \<and> exit_status (fst (main failing_env demo_world)) = 1
   \<and> stdout (snd (generate_icons failing_env demo_world)) =
        [''Generating icons...'', ''  icon_16x16.png (16x16)'', ''  icon_32x32.png (32x32)'',
         ''  icon_128x128.png (128x128)'']
   \<and> files (snd (generate_icons failing_env demo_world)) ''icon_128x128.png'' = None
   \<and> files (snd (generate_icons failing_env demo_world)) ''icon_256x256.png'' = None"
proof -
  let ?pre = "[(''icon_16x16.png'', 16), (''icon_32x32.png'', 32)] :: (string \<times> nat) list"
  have l: "files demo_world svg_file = Some ''<svg/>''"
    by (simp add: demo_world_def svg_file_def)
  have sp: "sizes = ?pre @ (''icon_128x128.png'', 128) # drop 3 sizes"
    by (simp add: sizes_def)
  have ok: "\<forall>p\<in>set ?pre. pair_ok failing_env ''<svg/>'' p"
    using failing_env_facts(4,5) by simp
  note t = sweep_failure_propagates [OF failing_env_facts(1,2) l sp ok failing_env_facts(3)]
  have o: "stdout demo_world = []" "files demo_world ''icon_128x128.png'' = None"
    "files demo_world ''icon_256x256.png'' = None"
    by (simp_all add: demo_world_def)
  have in_post: "(''icon_256x256.png'', 256) \<in> set ((''icon_128x128.png'', 128) # drop 3 sizes)"
    by (simp add: sizes_def)
  note t1 = t [THEN conjunct1]
  note t3 = t [THEN conjunct2, THEN conjunct2, THEN conjunct1]
  note t4 = t [THEN conjunct2, THEN conjunct2, THEN conjunct2, THEN conjunct1]
  note t6 = t [THEN conjunct2, THEN conjunct2, THEN conjunct2, THEN conjunct2, THEN conjunct2]
  have f1: "files (snd (generate_icons failing_env demo_world)) ''icon_128x128.png'' = None"
    using t6 o(2) by simp
  have f2: "files (snd (generate_icons failing_env demo_world)) ''icon_256x256.png'' = None"
    using t6 in_post o(3) by fastforce
  have f3: "stdout (snd (generate_icons failing_env demo_world)) =
        [''Generating icons...'', ''  icon_16x16.png (16x16)'', ''  icon_32x32.png (32x32)'',
         ''  icon_128x128.png (128x128)'']"
    using t4 o(1) by (simp add: progress_line_def str_nat_values)
  from failing_env_facts l sp t1 t3 f1 f2 f3 show ?thesis by (intro conjI)
qed

subsection \<open>The ICNS staging\<close>

lemma icns_names:
  "map icns_filename icns_sizes =
    [''icon_16x16.png'', ''icon_32x32.png'', ''icon_128x128.png'', ''icon_256x256.png'',
     ''icon_512x512.png'', ''icon_1024x1024.png'']"
  by (simp add: icns_sizes_def icns_filename_def str_nat_values)

lemma cairosvg_no_name_error: "cairosvg_svg2png e s url w h \<noteq> Inl (NameError x)"
  by (simp add: cairosvg_svg2png_def split: option.splits sum.splits)

lemma icns_staging_no_name: "fst (icns_staging e ns s) \<noteq> Inl (NameError x)"
proof (induction ns arbitrary: s)
  case Nil
  then show ?case by simp
next
  case (Cons n ns)
  show ?case
  proof (cases "cairosvg_svg2png e s svg_file n n")
    case (Inl y)
    then have "y \<noteq> NameError x" using cairosvg_no_name_error [of e s svg_file n n x] by auto
    with Inl show ?thesis by simp
  next
    case (Inr png)
    show ?thesis
    proof (cases "writable e (icns_filename n)")
      case True
      with Inr Cons.IH show ?thesis by (simp add: write_file_def)
    next
      case False
      with Inr show ?thesis by (simp add: write_file_def)
    qed
  qed
qed

lemma icns_staging_outside:
  "g \<notin> icns_filename ` set ns \<Longrightarrow> files (snd (icns_staging e ns s)) g = files s g"
proof (induction ns arbitrary: s)
  case Nil
  then show ?case by simp
next
  case (Cons n ns)
  then have g: "g \<noteq> icns_filename n" and rest: "g \<notin> icns_filename ` set ns" by auto
  show ?case
  proof (cases "cairosvg_svg2png e s svg_file n n")
    case (Inl y)
    then show ?thesis by simp
  next
    case (Inr png)
    show ?thesis
    proof (cases "writable e (icns_filename n)")
      case True
      with Inr Cons.IH [OF rest] g show ?thesis by (simp add: write_file_def)
    next
      case False
      with Inr show ?thesis by (simp add: write_file_def)
    qed
  qed
qed

lemma icns_staging_all_ok:
  assumes "files s svg_file = Some svg"
    and "svg_file \<notin> icns_filename ` set ns"
    and "\<forall>n\<in>set ns. pair_ok e svg (icns_filename n, n)"
  shows "icns_staging e ns s =
    (Inr (), s\<lparr>files := files s ++
       map_of (rev (map (\<lambda>n. (icns_filename n, the (raster e svg n))) ns))\<rparr>)"
  using assms
proof (induction ns arbitrary: s)
  case Nil
  then show ?case by simp
next
  case (Cons n ns)
  from Cons.prems(3) have "pair_ok e svg (icns_filename n, n)" by simp
  then obtain png where png: "svg2png e svg n n = Inr png" and ra: "raster e svg n = Some png"
    and wr: "writable e (icns_filename n)"
    by (auto simp: pair_ok_def raster_def split: sum.splits)
  let ?s1 = "s\<lparr>files := (files s)(icns_filename n \<mapsto> png)\<rparr>"
  have ne: "icns_filename n \<noteq> svg_file" using Cons.prems(2) by auto
  have a: "files ?s1 svg_file = Some svg" using Cons.prems(1) ne by simp
  have b: "svg_file \<notin> icns_filename ` set ns" using Cons.prems(2) by simp
  have c: "\<forall>n\<in>set ns. pair_ok e svg (icns_filename n, n)" using Cons.prems(3) by simp
  have step: "icns_staging e (n # ns) s = icns_staging e ns ?s1"
    using Cons.prems(1) png wr by (simp add: cairosvg_svg2png_def write_file_def)
  show ?case
    unfolding step Cons.IH [OF a b c]
    using ra by (simp add: map_add_upd_left)
qed

lemma icns_names_distinct: "distinct (map icns_filename icns_sizes)"
  unfolding icns_names by simp

lemma logo_not_icns: "svg_file \<notin> icns_filename ` set icns_sizes"
proof -
  have "svg_file \<notin> set (map icns_filename icns_sizes)"
    unfolding icns_names by (simp add: svg_file_def)
  then show ?thesis by simp
qed

text \<open>
  C1, as amended: every name the body of the ICNS staging loop reads is bound, and the
  loop never raises \<open>NameError\<close>, on any list of sizes, in any environment. Where
  \<open>logo.svg\<close> exists, the rasterizer succeeds at the six sizes and the six files are
  writable, it completes and each \<open>icon_{size}x{size}.png\<close> holds the raster of its
  size.
\<close>

theorem icns_staging_no_name_error:
  "(\<forall>name\<in>set icns_body_names. resolve name = Inr ())
   \<and> fst (icns_staging e ns s) \<noteq> Inl (NameError x)
   \<and> (files s svg_file = Some svg \<and> (\<forall>n\<in>set icns_sizes. pair_ok e svg (icns_filename n, n))
      \<longrightarrow> fst (icns_staging e icns_sizes s) = Inr ()
        \<and> (\<forall>n\<in>set icns_sizes. \<exists>png. svg2png e svg n n = Inr png
              \<and> files (snd (icns_staging e icns_sizes s)) (icns_filename n) = Some png))"
proof -
  have a: "\<forall>name\<in>set icns_body_names. resolve name = Inr ()"
    by (simp add: icns_body_names_def resolve_def local_names_def module_names_def
        builtin_names_def)
  have b: "fst (icns_staging e ns s) \<noteq> Inl (NameError x)" by (rule icns_staging_no_name)
  have c: "fst (icns_staging e icns_sizes s) = Inr ()
        \<and> (\<forall>n\<in>set icns_sizes. \<exists>png. svg2png e svg n n = Inr png
              \<and> files (snd (icns_staging e icns_sizes s)) (icns_filename n) = Some png)"
    if logo: "files s svg_file = Some svg"
      and ok: "\<forall>n\<in>set icns_sizes. pair_ok e svg (icns_filename n, n)"
  proof -
    let ?ws = "map (\<lambda>n. (icns_filename n, the (raster e svg n))) icns_sizes"
    note ch = icns_staging_all_ok [OF logo logo_not_icns ok]
    have dw: "distinct (map fst ?ws)" using icns_names_distinct by (simp add: comp_def)
    have "\<exists>png. svg2png e svg n n = Inr png
        \<and> files (snd (icns_staging e icns_sizes s)) (icns_filename n) = Some png"
      if n: "n \<in> set icns_sizes" for n
    proof -
      from ok n have "pair_ok e svg (icns_filename n, n)" by blast
      then obtain png where png: "svg2png e svg n n = Inr png"
        and ra: "raster e svg n = Some png"
        by (auto simp: pair_ok_def raster_def split: sum.splits)
      have "(icns_filename n, png) \<in> set ?ws" using n ra by force
      with dw have "map_of (rev ?ws) (icns_filename n) = Some png" by (rule map_of_rev_member)
      then have "(files s ++ map_of (rev ?ws)) (icns_filename n) = Some png"
        by (rule map_add_find_right)
      then have "files (snd (icns_staging e icns_sizes s)) (icns_filename n) = Some png"
        by (simp add: ch)
      with png show ?thesis by blast
    qed
    then show ?thesis by (simp add: ch)
  qed
  from a b c show ?thesis by blast
qed

lemma demo_icns_ok: "\<forall>n\<in>set icns_sizes. pair_ok demo_env svg (icns_filename n, n)"
  by (simp add: pair_ok_def demo_env_def)

theorem icns_staging_no_name_error_witness:
  "resolve ''open'' = Inr ()
   \<and> files demo_world svg_file = Some ''<svg/>''
   \<and> pair_ok demo_env ''<svg/>'' (icns_filename 1024, 1024)
   \<and> fst (icns_staging demo_env icns_sizes demo_world) = Inr ()
   \<and> files (snd (icns_staging demo_env icns_sizes demo_world)) (icns_filename 1024)
       = Some ''<svg/>1024''"
proof -
  have l: "files demo_world svg_file = Some ''<svg/>''"
    by (simp add: demo_world_def svg_file_def)
  have m: "1024 \<in> set icns_sizes" "''open'' \<in> set icns_body_names"
    by (simp_all add: icns_sizes_def icns_body_names_def)
  have r: "svg2png demo_env ''<svg/>'' 1024 1024 = Inr ''<svg/>1024''"
    by (simp add: demo_env_def str_nat_values)
  note t = icns_staging_no_name_error [of demo_env icns_sizes demo_world "''io''" "''<svg/>''"]
  from t m(2) have a: "resolve ''open'' = Inr ()" by blast
  from t l demo_icns_ok have b: "fst (icns_staging demo_env icns_sizes demo_world) = Inr ()"
    by blast
  from t l demo_icns_ok m(1) have "\<exists>png. svg2png demo_env ''<svg/>'' 1024 1024 = Inr png
     \<and> files (snd (icns_staging demo_env icns_sizes demo_world)) (icns_filename 1024) = Some png"
    by blast
  with r have c: "files (snd (icns_staging demo_env icns_sizes demo_world)) (icns_filename 1024)
       = Some ''<svg/>1024''" by simp
  from demo_icns_ok m(1) have d: "pair_ok demo_env ''<svg/>'' (icns_filename 1024, 1024)"
    by blast
  from a l d b c show ?thesis by (intro conjI)
qed

text \<open>
  C1 as stated fails: \<open>io\<close> is read by the body of the ICO loop and not by the body of
  the ICNS staging loop. With a rasterizer that succeeds, the staging loop completes
  and it is the ICO loop that raises \<open>NameError\<close>.
\<close>

theorem icns_completes_ico_raises:
  "''io'' \<notin> set icns_body_names \<and> ''io'' \<in> set ico_body_names
   \<and> resolve ''io'' = Inl (NameError ''io'')
   \<and> fst (icns_staging demo_env icns_sizes demo_world) = Inr ()
   \<and> fst (ico_loop demo_env ico_sizes [] demo_world) = Inl (NameError ''io'')"
proof -
  have l: "files demo_world svg_file = Some ''<svg/>''"
    by (simp add: demo_world_def svg_file_def)
  have a: "''io'' \<notin> set icns_body_names" by (simp add: icns_body_names_def)
  have b: "''io'' \<in> set ico_body_names" by (simp add: ico_body_names_def)
  have c: "fst (icns_staging demo_env icns_sizes demo_world) = Inr ()"
    by (simp add: icns_staging_all_ok [OF l logo_not_icns demo_icns_ok])
  have "cairosvg_svg2png demo_env demo_world svg_file 16 16 = Inr ''<svg/>16''"
    using l by (simp add: cairosvg_svg2png_def demo_env_def str_nat_values)
  then have "ico_loop demo_env (16 # [32, 48, 64]) [] demo_world
      = (Inl (NameError ''io''), demo_world)"
    by (rule ico_loop_name_error)
  then have d: "fst (ico_loop demo_env ico_sizes [] demo_world) = Inl (NameError ''io'')"
    unfolding ico_sizes_def by (simp only: fst_conv)
  from a b resolve_io c d show ?thesis by (intro conjI)
qed

subsection \<open>How many PNG files there are\<close>

lemma sizes_names:
  "map fst sizes =
    [''icon_16x16.png'', ''icon_32x32.png'', ''icon_128x128.png'', ''icon_256x256.png'',
     ''icon_512x512.png'', ''icon_1024x1024.png'', ''favicon-16x16.png'',
     ''favicon-32x32.png'', ''favicon-96x96.png'', ''favicon-192x192.png'',
     ''apple-touch-icon.png'']"
  by (simp add: sizes_def)

lemma icns_names_prefix: "map icns_filename icns_sizes = map fst (take 6 sizes)"
  unfolding icns_names by (simp add: sizes_def)

lemma icns_names_subset: "set (map icns_filename icns_sizes) \<subseteq> set (map fst sizes)"
  unfolding icns_names_prefix using set_take_subset [of 6 sizes] by auto

lemma common_member: "x \<in> A \<Longrightarrow> x \<in> B \<Longrightarrow> \<not> (A \<inter> B = {})"
  by blast

lemma png_names_card:
  "card (set (map fst sizes) \<union> set (map icns_filename icns_sizes)) = 11"
proof -
  have "set (map fst sizes) \<union> set (map icns_filename icns_sizes) = set (map fst sizes)"
    using icns_names_subset by blast
  moreover have "card (set (map fst sizes)) = length (map fst sizes)"
    using distinct_sizes by (rule distinct_card)
  ultimately show ?thesis by (simp add: sizes_def)
qed

text \<open>
  C4, as amended: the six ICNS staging names \<open>icon_{size}x{size}.png\<close> for 16, 32, 128,
  256, 512 and 1024 are, in this order, the first six names of the primary mapping.
  The staging loop therefore adds no file of its own: it touches no file outside the
  mapping's names, and the names of the mapping and of the staging together are 11
  distinct PNG names.
\<close>

theorem icns_staging_adds_no_file:
  "map icns_filename icns_sizes = map fst (take 6 sizes)
   \<and> card (set (map fst sizes) \<union> set (map icns_filename icns_sizes)) = 11
   \<and> (\<forall>g. g \<notin> set (map fst sizes) \<longrightarrow>
         files (snd (icns_staging e icns_sizes s)) g = files s g)"
proof -
  have "files (snd (icns_staging e icns_sizes s)) g = files s g"
    if "g \<notin> set (map fst sizes)" for g
  proof -
    from that icns_names_subset have "g \<notin> icns_filename ` set icns_sizes" by auto
    then show ?thesis by (rule icns_staging_outside)
  qed
  with icns_names_prefix png_names_card show ?thesis by blast
qed

theorem icns_staging_adds_no_file_witness:
  "''other.png'' \<notin> set (map fst sizes)
   \<and> map icns_filename icns_sizes = map fst (take 6 sizes)
   \<and> files (snd (icns_staging demo_env icns_sizes demo_world)) ''other.png'' = None"
proof -
  have a: "''other.png'' \<notin> set (map fst sizes)" unfolding sizes_names by simp
  have o: "files demo_world ''other.png'' = None" by (simp add: demo_world_def)
  note t = icns_staging_adds_no_file [of demo_env demo_world]
  from t a have "files (snd (icns_staging demo_env icns_sizes demo_world)) ''other.png''
      = files demo_world ''other.png''" by blast
  with o have b: "files (snd (icns_staging demo_env icns_sizes demo_world)) ''other.png'' = None"
    by simp
  from a t [THEN conjunct1] b show ?thesis by (intro conjI)
qed

text \<open>
  C4 as stated fails: the staging names are not distinct from the mapping's, the first
  of them is \<open>icon_16x16.png\<close> of the mapping, and there are 11 PNG names, not 17.
\<close>

theorem staging_names_not_distinct:
  "\<not> (set (map icns_filename icns_sizes) \<inter> set (map fst sizes) = {})
   \<and> icns_filename 16 = ''icon_16x16.png''
   \<and> map_of sizes ''icon_16x16.png'' = Some 16
   \<and> card (set (map fst sizes) \<union> set (map icns_filename icns_sizes)) \<noteq> 17"
proof -
  have a: "icns_filename 16 = ''icon_16x16.png''"
    by (simp add: icns_filename_def str_nat_values)
  have b: "map_of sizes ''icon_16x16.png'' = Some 16" by (simp add: sizes_def)
  have "''icon_16x16.png'' \<in> set (map icns_filename icns_sizes)" unfolding icns_names by simp
  moreover have "''icon_16x16.png'' \<in> set (map fst sizes)" unfolding sizes_names by simp
  ultimately have c: "\<not> (set (map icns_filename icns_sizes) \<inter> set (map fst sizes) = {})"
    by (rule common_member)
  have d: "card (set (map fst sizes) \<union> set (map icns_filename icns_sizes)) \<noteq> 17"
    unfolding png_names_card by simp
  from c a b d show ?thesis by (intro conjI)
qed

end
